theory Spec2Isabelle
  imports Main "HOL-Library.Word"
begin

text \<open>
  A shallow embedding of the replicated command pipeline of vector-xlite's cluster proxy:
  the server-side leader redirect interceptor and cluster service, the state machine that
  applies committed commands to the backend, the length-prefixed snapshot frame codec, and
  the client-side redirect interceptor.

  Each Go function is a HOL function of the same name. Errors are values of type \<open>error\<close>;
  a function that returns \<^verbatim>\<open>(T, error)\<close> returns \<open>error + T\<close>, one that returns only an
  \<^verbatim>\<open>error\<close> returns \<open>error option\<close>. What a function does to the world outside it (the
  bytes written to a sink, the calls sent to the backend, the commands proposed to Raft,
  the calls made on the network) is a value it takes and hands back. Code outside the
  repository (\<^verbatim>\<open>encoding/json\<close>, the gRPC transport, the Raft library, the backend server)
  is a parameter of the functions that call it. Fixed-width integers are words; Go's
  \<^verbatim>\<open>int\<close> is \<open>int\<close> where it only counts up to a bound, as the redirect count does.
\<close>

section \<open>Go values shared by the packages\<close>

type_synonym byte = "8 word"

text \<open>The gRPC status codes (\<^verbatim>\<open>google.golang.org/grpc/codes\<close>).\<close>

datatype Code =
    OK | Canceled | Unknown | InvalidArgument | DeadlineExceeded | NotFound
  | AlreadyExists | PermissionDenied | ResourceExhausted | FailedPrecondition
  | Aborted | OutOfRange | Unimplemented | Internal | Unavailable | DataLoss
  | Unauthenticated

text \<open>
  Go \<^verbatim>\<open>error\<close> values as the code builds and compares them.
  \<^item> \<open>EOF\<close> and \<open>ErrUnexpectedEOF\<close> are the sentinels of package \<^verbatim>\<open>io\<close>;
  \<^item> \<open>ErrorString s\<close> is \<^verbatim>\<open>errors.New(s)\<close>, or \<^verbatim>\<open>fmt.Errorf\<close> with no wrapped
    error, \<open>s\<close> being the rendered message;
  \<^item> \<open>Wrapped p e\<close> is \<^verbatim>\<open>fmt.Errorf("p%w", e)\<close>: the rendered text before the verb,
    and the wrapped error;
  \<^item> \<open>StatusError c p e\<close> is \<^verbatim>\<open>status.Errorf(c, ...)\<close>: the code, the rendered text
    and, where the format ends in \<^verbatim>\<open>%v\<close> of an error, that error.
\<close>

datatype error =
    EOF
  | ErrUnexpectedEOF
  | ErrorString string
  | Wrapped string error
  | StatusError Code string "error option"


text \<open>\<^verbatim>\<open>codes.Code.String()\<close> and the \<^verbatim>\<open>Error()\<close> method.\<close>

fun Code_String :: "Code \<Rightarrow> string" where
  "Code_String OK = ''OK''"
| "Code_String Canceled = ''Canceled''"
| "Code_String Unknown = ''Unknown''"
| "Code_String InvalidArgument = ''InvalidArgument''"
| "Code_String DeadlineExceeded = ''DeadlineExceeded''"
| "Code_String NotFound = ''NotFound''"
| "Code_String AlreadyExists = ''AlreadyExists''"
| "Code_String PermissionDenied = ''PermissionDenied''"
| "Code_String ResourceExhausted = ''ResourceExhausted''"
| "Code_String FailedPrecondition = ''FailedPrecondition''"
| "Code_String Aborted = ''Aborted''"
| "Code_String OutOfRange = ''OutOfRange''"
| "Code_String Unimplemented = ''Unimplemented''"
| "Code_String Internal = ''Internal''"
| "Code_String Unavailable = ''Unavailable''"
| "Code_String DataLoss = ''DataLoss''"
| "Code_String Unauthenticated = ''Unauthenticated''"

fun Error_text :: "error \<Rightarrow> string" where
  "Error_text EOF = ''EOF''"
| "Error_text ErrUnexpectedEOF = ''unexpected EOF''"
| "Error_text (ErrorString s) = s"
| "Error_text (Wrapped p e) = p @ Error_text e"
| "Error_text (StatusError c p e) =
     ''rpc error: code = '' @ Code_String c @ '' desc = '' @ p
       @ (case e of None \<Rightarrow> [] | Some e' \<Rightarrow> Error_text e')"

text \<open>Decimal rendering of a non-negative integer, as \<^verbatim>\<open>%d\<close> prints it.\<close>

definition digit :: "nat \<Rightarrow> char" where
  "digit d = ''0123456789'' ! d"

fun decimal :: "nat \<Rightarrow> string" where
  "decimal n = (if n < 10 then [digit n] else decimal (n div 10) @ [digit (n mod 10)])"

declare decimal.simps [simp del]


text \<open>The bytes of a Go string, \<^verbatim>\<open>[]byte(s)\<close>.\<close>

definition bytes_of :: "string \<Rightarrow> byte list" where
  "bytes_of s = map (\<lambda>c. word_of_nat (of_char c)) s"

text \<open>
  gRPC metadata (\<^verbatim>\<open>metadata.MD\<close>, a \<^verbatim>\<open>map[string][]string\<close>) as an association
  list. \<open>Pairs\<close> appends each value to the values of its key; \<open>md_Get\<close> is \<^verbatim>\<open>MD.Get\<close>,
  empty for a missing key. Keys are the lower-case literals of the code.
\<close>

type_synonym MD = "(string \<times> string list) list"

definition md_Get :: "MD \<Rightarrow> string \<Rightarrow> string list" where
  "md_Get md k = (case map_of md k of None \<Rightarrow> [] | Some vs \<Rightarrow> vs)"

definition md_append :: "MD \<Rightarrow> string \<times> string \<Rightarrow> MD" where
  "md_append md kv =
     (case map_of md (fst kv) of
        None \<Rightarrow> md @ [(fst kv, [snd kv])]
      | Some vs \<Rightarrow> map (\<lambda>(k, ws). if k = fst kv then (k, ws @ [snd kv]) else (k, ws)) md)"

definition Pairs :: "(string \<times> string) list \<Rightarrow> MD" where
  "Pairs kvs = foldl md_append [] kvs"

section \<open>Server side: the leader redirect interceptor (pkg/server/interceptor.go)\<close>

datatype RaftState = Follower | Candidate | Leader | Shutdown

datatype ServerSuffrage = Voter | Nonvoter | Staging

record Server =
  srv_Suffrage :: ServerSuffrage
  srv_ID :: string
  srv_Address :: string

text \<open>
  What the \<^verbatim>\<open>ClusterNode\<close> interface reports when the server asks: \<^verbatim>\<open>State()\<close>,
  \<^verbatim>\<open>Leader()\<close> (the leader's raft address, empty when none is known) and
  \<^verbatim>\<open>GetConfiguration()\<close> (the future's error, or its servers).
\<close>

record ClusterNode =
  node_State :: RaftState
  node_Leader :: string
  node_GetConfiguration :: "error + Server list"

text \<open>\<^verbatim>\<open>strings.LastIndex(s, ":")\<close> for a one-byte separator: \<open>-1\<close> when absent.\<close>

fun LastIndex :: "string \<Rightarrow> char \<Rightarrow> int" where
  "LastIndex [] c = -1"
| "LastIndex (x # xs) c =
     (let r = LastIndex xs c in
      if 0 \<le> r then r + 1 else if x = c then 0 else -1)"

definition convertRaftToClusterAddr :: "string \<Rightarrow> error + string" where
  "convertRaftToClusterAddr raftAddr =
     (let lastColon = LastIndex raftAddr CHR '':'' in
      if lastColon = -1 then Inl (ErrorString (''invalid address format: '' @ raftAddr))
      else
        let host = take (nat lastColon) raftAddr;
            port = drop (nat lastColon + 1) raftAddr
        in
          if length port = 0 \<or> port ! (length port - 1) \<noteq> CHR ''1''
          then Inl (ErrorString (''raft address must end with '' @ [CHR 39, CHR ''1'', CHR 39] @ '': '' @ raftAddr))
          else
            let clusterPort = take (length port - 1) port @ ''2'';
                clusterAddr = host @ '':'' @ clusterPort
            in Inr clusterAddr)"

definition writeOperations :: "(string \<times> bool) list" where
  "writeOperations =
     [(''/vectorxlite.cluster.ClusterService/CreateCollection'', True),
      (''/vectorxlite.cluster.ClusterService/Insert'', True),
      (''/vectorxlite.cluster.ClusterService/Delete'', True),
      (''/vectorxlite.cluster.ClusterService/JoinCluster'', True),
      (''/vectorxlite.cluster.ClusterService/LeaveCluster'', True)]"

definition isWriteOperation :: "string \<Rightarrow> bool" where
  "isWriteOperation method =
     (case map_of writeOperations method of None \<Rightarrow> False | Some b \<Rightarrow> b)"

text \<open>
  The outcome of the unary interceptor: \<open>Handler r\<close> when it ran \<^verbatim>\<open>handler(ctx, req)\<close>
  and returned its result \<open>r\<close>; \<open>Reject err md\<close> when it returned \<^verbatim>\<open>(nil, err)\<close> without
  running the handler, \<open>md\<close> being the response header it had set by then.
  \<open>SetHeader\<close> is \<^verbatim>\<open>grpc.SetHeader(ctx, _)\<close>, which fails on a context without a
  server stream.
\<close>

datatype 'r unary_result = Handler 'r | Reject error MD

definition Unary ::
  "ClusterNode \<Rightarrow> (MD \<Rightarrow> error option) \<Rightarrow> string \<Rightarrow> ('q \<Rightarrow> 'r) \<Rightarrow> 'q \<Rightarrow> 'r unary_result" where
  "Unary raftNode SetHeader FullMethod handler req =
     (if isWriteOperation FullMethod \<and> node_State raftNode \<noteq> Leader then
        (let leaderRaftAddr = node_Leader raftNode in
         if leaderRaftAddr = [] then
           Reject (StatusError Unavailable ''no leader available, please retry'' None) []
         else
           (case convertRaftToClusterAddr leaderRaftAddr of
              Inl err \<Rightarrow>
                Reject (StatusError Internal ''failed to convert leader address: '' (Some err)) []
            | Inr leaderClusterAddr \<Rightarrow>
                (let md = Pairs [(''x-leader-addr'', leaderClusterAddr), (''x-redirect'', ''true'')] in
                 case SetHeader md of
                   Some err \<Rightarrow> Reject (StatusError Internal ''failed to set header: '' (Some err)) []
                 | None \<Rightarrow>
                     Reject (StatusError FailedPrecondition
                               (''not leader, redirect to: '' @ leaderClusterAddr) None) md)))
      else Handler (handler req))"

section \<open>Server side: the cluster service (pkg/server/server.go)\<close>

record NodeInfo =
  ni_NodeId :: string
  ni_Addr :: string
  ni_State :: string
  ni_IsVoter :: bool

record ClusterInfoResponse =
  cir_LeaderId :: string
  cir_LeaderAddr :: string
  cir_Nodes :: "NodeInfo list"
  cir_State :: string

text \<open>\<^verbatim>\<open>raft.RaftState.String()\<close>.\<close>

fun RaftState_String :: "RaftState \<Rightarrow> string" where
  "RaftState_String Follower = ''Follower''"
| "RaftState_String Candidate = ''Candidate''"
| "RaftState_String Leader = ''Leader''"
| "RaftState_String Shutdown = ''Shutdown''"

definition isLeader :: "ClusterNode \<Rightarrow> bool" where
  "isLeader raftNode = (node_State raftNode = Leader)"

definition getLeaderAddr :: "ClusterNode \<Rightarrow> string" where
  "getLeaderAddr raftNode = node_Leader raftNode"

fun findLeaderID :: "Server list \<Rightarrow> string \<Rightarrow> string" where
  "findLeaderID [] leaderAddr = []"
| "findLeaderID (server # servers) leaderAddr =
     (if srv_Address server = leaderAddr then srv_ID server
      else findLeaderID servers leaderAddr)"

definition nodeInfoOf :: "string \<Rightarrow> Server \<Rightarrow> NodeInfo" where
  "nodeInfoOf leaderAddr server =
     \<lparr>ni_NodeId = srv_ID server,
      ni_Addr = srv_Address server,
      ni_State = (if srv_Address server = leaderAddr then ''leader'' else ''follower''),
      ni_IsVoter = (srv_Suffrage server = Voter)\<rparr>"

definition GetClusterInfo :: "ClusterNode \<Rightarrow> error + ClusterInfoResponse" where
  "GetClusterInfo raftNode =
     (case node_GetConfiguration raftNode of
        Inl err \<Rightarrow> Inl (StatusError Internal ''failed to get configuration: '' (Some err))
      | Inr servers \<Rightarrow>
          (let leaderAddr = getLeaderAddr raftNode;
               nodes = map (nodeInfoOf leaderAddr) servers
           in Inr \<lparr>cir_LeaderId = findLeaderID servers leaderAddr,
                    cir_LeaderAddr = leaderAddr,
                    cir_Nodes = nodes,
                    cir_State = RaftState_String (node_State raftNode)\<rparr>))"

section \<open>Snapshot types (clients/go/types/snapshot.go)\<close>

datatype SnapshotFileType =
    SnapshotFileTypeUnknown
  | SnapshotFileTypeSqliteDB
  | SnapshotFileTypeHnswIndex
  | SnapshotFileTypeWal

record SnapshotFileInfo =
  sfi_FileName :: string
  sfi_FileType :: SnapshotFileType
  sfi_FileSize :: "64 word"
  sfi_Checksum :: string

record SnapshotMetadata =
  sm_SnapshotID :: string
  sm_CreatedAt :: "64 word"
  sm_TotalSize :: "64 word"
  sm_Files :: "SnapshotFileInfo list"
  sm_Version :: "32 word"
  sm_Checksum :: string

record FileChunk =
  fc_FileName :: string
  fc_Offset :: "64 word"
  fc_Data :: "byte list"
  fc_IsLastChunk :: bool

record SnapshotChunk =
  sc_Metadata :: "SnapshotMetadata option"
  sc_FileChunk :: "FileChunk option"
  sc_Sequence :: "64 word"
  sc_IsFinal :: bool

record SnapshotCollector =
  col_Metadata :: "SnapshotMetadata option"
  col_Chunks :: "SnapshotChunk list"

section \<open>The snapshot frame codec (pkg/consensus, the FSM's file)\<close>

text \<open>
  \<^verbatim>\<open>encoding/json\<close> is not code of this repository: \<^verbatim>\<open>json.Marshal\<close> and
  \<^verbatim>\<open>json.Unmarshal\<close> are parameters of the functions that call them (written \<open>Marshal\<close>
  and \<open>Unmarshal\<close>), each returning the error or the value.

  An \<^verbatim>\<open>io.Writer\<close> is its \<^verbatim>\<open>Write\<close> method over the writer's state; the code ignores the
  byte count it returns. \<open>bufferWrite\<close> is the in-memory writer: it appends and never
  fails. An \<^verbatim>\<open>io.Reader\<close> is the list of bytes it has yet to deliver.
\<close>

type_synonym 'w Writer = "'w \<Rightarrow> byte list \<Rightarrow> 'w \<times> error option"

definition bufferWrite :: "(byte list) Writer" where
  "bufferWrite buf p = (buf @ p, None)"

text \<open>\<^verbatim>\<open>binary.BigEndian\<close> on a \<^verbatim>\<open>uint32\<close>.\<close>

definition BigEndian_PutUint32 :: "32 word \<Rightarrow> byte list" where
  "BigEndian_PutUint32 v =
     [ucast (drop_bit 24 v), ucast (drop_bit 16 v), ucast (drop_bit 8 v), ucast v]"

definition BigEndian_Uint32 :: "byte list \<Rightarrow> 32 word" where
  "BigEndian_Uint32 b =
     or (or (or (push_bit 24 (ucast (b ! 0))) (push_bit 16 (ucast (b ! 1))))
            (push_bit 8 (ucast (b ! 2))))
        (ucast (b ! 3))"

text \<open>
  \<^verbatim>\<open>io.ReadFull(r, buf)\<close> with \<open>n = len(buf)\<close>: the \<open>n\<close> bytes, or \<open>EOF\<close> when none could
  be read and \<open>ErrUnexpectedEOF\<close> when some but not all could. With \<open>n = 0\<close> it succeeds.
\<close>

definition io_ReadFull :: "byte list \<Rightarrow> nat \<Rightarrow> (error + byte list) \<times> byte list" where
  "io_ReadFull r n =
     (if n \<le> length r then (Inr (take n r), drop n r)
      else if r = [] then (Inl EOF, [])
      else (Inl ErrUnexpectedEOF, []))"

text \<open>\<^verbatim>\<open>binary.Read(r, binary.BigEndian, &length)\<close> for a \<^verbatim>\<open>uint32\<close>: four bytes, read in full.\<close>

definition binary_Read :: "byte list \<Rightarrow> (error + 32 word) \<times> byte list" where
  "binary_Read r =
     (case io_ReadFull r 4 of
        (Inl err, r') \<Rightarrow> (Inl err, r')
      | (Inr bs, r') \<Rightarrow> (Inr (BigEndian_Uint32 bs), r'))"

text \<open>\<^verbatim>\<open>binary.Write(w, binary.BigEndian, length)\<close>: one \<^verbatim>\<open>Write\<close> of the four bytes.\<close>

definition binary_Write :: "'w Writer \<Rightarrow> 'w \<Rightarrow> 32 word \<Rightarrow> 'w \<times> error option" where
  "binary_Write Write w v = Write w (BigEndian_PutUint32 v)"

definition writeChunk ::
  "(SnapshotChunk \<Rightarrow> error + byte list) \<Rightarrow> 'w Writer \<Rightarrow> 'w \<Rightarrow> SnapshotChunk \<Rightarrow> 'w \<times> error option" where
  "writeChunk Marshal Write w chunk =
     (case Marshal chunk of
        Inl err \<Rightarrow> (w, Some (Wrapped ''failed to marshal chunk: '' err))
      | Inr data \<Rightarrow>
          (let length32 = (word_of_nat (length data) :: 32 word) in
           case binary_Write Write w length32 of
             (w1, Some err) \<Rightarrow> (w1, Some (Wrapped ''failed to write length prefix: '' err))
           | (w1, None) \<Rightarrow>
               (case Write w1 data of
                  (w2, Some err) \<Rightarrow> (w2, Some (Wrapped ''failed to write chunk data: '' err))
                | (w2, None) \<Rightarrow> (w2, None))))"

definition readChunk ::
  "(byte list \<Rightarrow> error + SnapshotChunk) \<Rightarrow> byte list \<Rightarrow> (error + SnapshotChunk) \<times> byte list" where
  "readChunk Unmarshal r =
     (case binary_Read r of
        (Inl err, r1) \<Rightarrow> (Inl err, r1)
      | (Inr length32, r1) \<Rightarrow>
          (case io_ReadFull r1 (unat length32) of
             (Inl err, r2) \<Rightarrow> (Inl (Wrapped ''failed to read chunk data: '' err), r2)
           | (Inr data, r2) \<Rightarrow>
               (case Unmarshal data of
                  Inl err \<Rightarrow> (Inl (Wrapped ''failed to unmarshal chunk: '' err), r2)
                | Inr chunk \<Rightarrow> (Inr chunk, r2))))"

text \<open>The loop of \<open>writeSnapshotToSink\<close>, from index \<open>i\<close> on.\<close>

fun writeChunksFrom ::
  "(SnapshotChunk \<Rightarrow> error + byte list) \<Rightarrow> 'w Writer \<Rightarrow> 'w \<Rightarrow> nat \<Rightarrow> SnapshotChunk list
     \<Rightarrow> 'w \<times> error option" where
  "writeChunksFrom Marshal Write sink i [] = (sink, None)"
| "writeChunksFrom Marshal Write sink i (chunk # rest) =
     (case writeChunk Marshal Write sink chunk of
        (sink1, Some err) \<Rightarrow>
          (sink1, Some (Wrapped (''failed to write chunk '' @ decimal i @ '': '') err))
      | (sink1, None) \<Rightarrow> writeChunksFrom Marshal Write sink1 (i + 1) rest)"

definition writeSnapshotToSink ::
  "(SnapshotChunk \<Rightarrow> error + byte list) \<Rightarrow> 'w Writer \<Rightarrow> 'w \<Rightarrow> SnapshotCollector
     \<Rightarrow> 'w \<times> error option" where
  "writeSnapshotToSink Marshal Write sink collector =
     writeChunksFrom Marshal Write sink 0 (col_Chunks collector)"

lemma readChunk_consumes:
  "readChunk Unmarshal r = (Inr chunk, r') \<Longrightarrow> length r' < length r"
  by (auto simp: readChunk_def binary_Read_def io_ReadFull_def
           split: if_splits sum.splits prod.splits)

text \<open>
  The loop of \<open>readSnapshotChunks\<close>, \<open>chunks\<close> being the slice built so far. Every chunk
  read takes at least the four bytes of its length prefix from the reader.
\<close>

function readLoop ::
  "(byte list \<Rightarrow> error + SnapshotChunk) \<Rightarrow> byte list \<Rightarrow> SnapshotChunk list
     \<Rightarrow> error + SnapshotChunk list" where
  "readLoop Unmarshal rc chunks =
     (case readChunk Unmarshal rc of
        (Inl err, rc') \<Rightarrow>
          if err = EOF then Inr chunks
          else Inl (Wrapped ''failed to read chunk: '' err)
      | (Inr chunk, rc') \<Rightarrow>
          (let chunks' = chunks @ [chunk] in
           if sc_IsFinal chunk then Inr chunks'
           else readLoop Unmarshal rc' chunks'))"
  by pat_completeness auto
termination
  by (relation "measure (\<lambda>(Unmarshal, rc, chunks). length rc)")
     (auto dest: readChunk_consumes [OF sym])

declare readLoop.simps [simp del]

definition readSnapshotChunks ::
  "(byte list \<Rightarrow> error + SnapshotChunk) \<Rightarrow> byte list \<Rightarrow> error + SnapshotChunk list" where
  "readSnapshotChunks Unmarshal rc = readLoop Unmarshal rc []"

section \<open>The backend client (clients/go/client) and the replicated state machine\<close>

datatype DistanceFunction = DistanceUnknown | DistanceCosine | DistanceEuclidean | DistanceDot

record CollectionConfig =
  cc_CollectionName :: string
  cc_Distance :: DistanceFunction
  cc_VectorDimension :: "32 word"
  cc_PayloadTableSchema :: string
  cc_IndexFilePath :: string

text \<open>A \<^verbatim>\<open>float32\<close> is kept as its 32 bits: no arithmetic is done on vectors here.\<close>

record InsertPoint =
  ip_CollectionName :: string
  ip_Id :: "64 word"
  ip_Vector :: "32 word list"
  ip_PayloadInsertQuery :: string

text \<open>
  The backend is a remote server. What the client sends is recorded as a list of calls, in
  order; what the server answers to a call may depend on every call it has served before.
  The state of a \<^verbatim>\<open>client.Client\<close> is the list of calls it has sent.
\<close>

datatype backend_call =
    CallCreateCollection CollectionConfig
  | CallInsert InsertPoint
  | CallDelete string "64 word"
  | CallDeleteCollection string
  | CallImportSnapshot "SnapshotChunk list"

type_synonym backend = "backend_call list \<Rightarrow> backend_call \<Rightarrow> error option"

definition rpc :: "backend \<Rightarrow> backend_call list \<Rightarrow> backend_call \<Rightarrow> error option \<times> backend_call list" where
  "rpc be calls c = (be calls c, calls @ [c])"

definition Client_CreateCollection ::
  "backend \<Rightarrow> backend_call list \<Rightarrow> CollectionConfig option \<Rightarrow> error option \<times> backend_call list" where
  "Client_CreateCollection be calls cfg =
     (case cfg of
        None \<Rightarrow> (Some (ErrorString ''nil config''), calls)
      | Some c \<Rightarrow> rpc be calls (CallCreateCollection c))"

definition Client_Insert ::
  "backend \<Rightarrow> backend_call list \<Rightarrow> InsertPoint option \<Rightarrow> error option \<times> backend_call list" where
  "Client_Insert be calls p =
     (case p of
        None \<Rightarrow> (Some (ErrorString ''nil point''), calls)
      | Some pt \<Rightarrow> rpc be calls (CallInsert pt))"

definition Client_Delete ::
  "backend \<Rightarrow> backend_call list \<Rightarrow> string \<Rightarrow> 64 word \<Rightarrow> error option \<times> backend_call list" where
  "Client_Delete be calls collectionName ident =
     (if collectionName = [] then (Some (ErrorString ''collection name cannot be empty''), calls)
      else rpc be calls (CallDelete collectionName ident))"

definition Client_DeleteCollection ::
  "backend \<Rightarrow> backend_call list \<Rightarrow> string \<Rightarrow> error option \<times> backend_call list" where
  "Client_DeleteCollection be calls collectionName =
     (if collectionName = [] then (Some (ErrorString ''collection name cannot be empty''), calls)
      else rpc be calls (CallDeleteCollection collectionName))"

text \<open>
  \<open>ImportSnapshot\<close> opens one stream, sends every chunk and closes it: one call to the
  backend, whose answer is the first error of the three steps, if any.
\<close>

definition Client_ImportSnapshot ::
  "backend \<Rightarrow> backend_call list \<Rightarrow> SnapshotChunk list \<Rightarrow> error option \<times> backend_call list" where
  "Client_ImportSnapshot be calls chunks =
     (if length chunks = 0 then (Some (ErrorString ''no chunks to import''), calls)
      else rpc be calls (CallImportSnapshot chunks))"

definition CmdCreateCollection :: int where "CmdCreateCollection = 1"
definition CmdInsert :: int where "CmdInsert = 2"
definition CmdDelete :: int where "CmdDelete = 3"
definition CmdUpdate :: int where "CmdUpdate = 4"
definition CmdDropCollection :: int where "CmdDropCollection = 5"

record Command =
  cmd_Type :: int
  cmd_Payload :: "byte list"

record ApplyResult =
  ar_Data :: "unit option"
  ar_Error :: "error option"

text \<open>
  What a call of the state machine ends in: \<open>Returns r\<close>, or \<open>Fatalf p err\<close> where
  \<^verbatim>\<open>log.Fatalf\<close> prints the message \<open>p\<close> followed by \<open>err\<close> and exits the process.
\<close>

datatype 'a outcome = Returns 'a | Fatalf string error

definition applyCreateCollection ::
  "(byte list \<Rightarrow> error + CollectionConfig) \<Rightarrow> backend \<Rightarrow> backend_call list \<Rightarrow> byte list
     \<Rightarrow> ApplyResult outcome \<times> backend_call list" where
  "applyCreateCollection Unmarshal be calls payload =
     (case Unmarshal payload of
        Inl err \<Rightarrow> (Returns \<lparr>ar_Data = None, ar_Error = Some err\<rparr>, calls)
      | Inr collectionConfig \<Rightarrow>
          (case Client_CreateCollection be calls (Some collectionConfig) of
             (ignored, calls') \<Rightarrow> (Returns \<lparr>ar_Data = None, ar_Error = None\<rparr>, calls')))"

definition applyInsert ::
  "(byte list \<Rightarrow> error + InsertPoint) \<Rightarrow> backend \<Rightarrow> backend_call list \<Rightarrow> byte list
     \<Rightarrow> ApplyResult outcome \<times> backend_call list" where
  "applyInsert Unmarshal be calls payload =
     (case Unmarshal payload of
        Inl err \<Rightarrow> (Fatalf ''failed deserialize the insert point, err: '' err, calls)
      | Inr insertPoint \<Rightarrow>
          (case Client_Insert be calls (Some insertPoint) of
             (ignored, calls') \<Rightarrow> (Returns \<lparr>ar_Data = None, ar_Error = None\<rparr>, calls')))"

definition Apply ::
  "(byte list \<Rightarrow> error + Command) \<Rightarrow> (byte list \<Rightarrow> error + CollectionConfig) \<Rightarrow>
   (byte list \<Rightarrow> error + InsertPoint) \<Rightarrow> backend \<Rightarrow> backend_call list \<Rightarrow> byte list
     \<Rightarrow> ApplyResult outcome \<times> backend_call list" where
  "Apply UnmarshalCommand UnmarshalConfig UnmarshalPoint be calls rlog_Data =
     (case UnmarshalCommand rlog_Data of
        Inl err \<Rightarrow>
          (Fatalf ''Failed to deserialize raft log in Apply method, err: '' err, calls)
      | Inr cmd \<Rightarrow>
          if cmd_Type cmd = CmdCreateCollection then
            applyCreateCollection UnmarshalConfig be calls (cmd_Payload cmd)
          else if cmd_Type cmd = CmdInsert then
            applyInsert UnmarshalPoint be calls (cmd_Payload cmd)
          else (Returns \<lparr>ar_Data = None, ar_Error = None\<rparr>, calls))"

definition Restore ::
  "(byte list \<Rightarrow> error + SnapshotChunk) \<Rightarrow> backend \<Rightarrow> backend_call list \<Rightarrow> byte list
     \<Rightarrow> error option \<times> backend_call list" where
  "Restore Unmarshal be calls rc =
     (case readSnapshotChunks Unmarshal rc of
        Inl err \<Rightarrow> (Some err, calls)
      | Inr chunks \<Rightarrow> Client_ImportSnapshot be calls chunks)"

section \<open>The write handlers (pkg/server/server.go and the node's main.go)\<close>

record InsertRequest =
  ireq_CollectionName :: string
  ireq_Id :: "64 word"
  ireq_Vector :: "32 word list"
  ireq_PayloadInsertQuery :: string

record InsertResponse =
  iresp_Success :: bool
  iresp_Message :: string

record DeleteRequest =
  dreq_CollectionName :: string
  dreq_Id :: "64 word"

record DeleteResponse =
  dresp_Success :: bool
  dresp_Message :: string

text \<open>
  The consensus node, seen from a handler: the commands handed to \<^verbatim>\<open>Apply\<close> so far, each
  with its timeout in seconds, and the error of the future it returns, which may depend
  on what was proposed before.
\<close>

type_synonym proposals = "(byte list \<times> nat) list"

type_synonym raft = "proposals \<Rightarrow> byte list \<Rightarrow> error option"

definition raft_Apply :: "raft \<Rightarrow> proposals \<Rightarrow> byte list \<Rightarrow> nat \<Rightarrow> error option \<times> proposals" where
  "raft_Apply rf ps cmd timeout = (rf ps cmd, ps @ [(cmd, timeout)])"

definition InsertPointBuilder_Build :: "InsertPoint \<Rightarrow> error + InsertPoint" where
  "InsertPointBuilder_Build p =
     (if ip_CollectionName p = [] then Inl (ErrorString ''collection_name required'')
      else if length (ip_Vector p) = 0 then Inl (ErrorString ''vector required'')
      else Inr p)"

definition OnInsert ::
  "(InsertPoint \<Rightarrow> error + byte list) \<Rightarrow> (Command \<Rightarrow> error + byte list) \<Rightarrow> raft \<Rightarrow>
   proposals \<Rightarrow> InsertRequest \<Rightarrow> error option \<times> proposals" where
  "OnInsert MarshalPoint MarshalCommand rf ps req =
     (case InsertPointBuilder_Build
             \<lparr>ip_CollectionName = ireq_CollectionName req, ip_Id = ireq_Id req,
              ip_Vector = ireq_Vector req,
              ip_PayloadInsertQuery = ireq_PayloadInsertQuery req\<rparr> of
        Inl err \<Rightarrow> (Some (Wrapped ''failed to build insert request: '' err), ps)
      | Inr insertReq \<Rightarrow>
          (case MarshalPoint insertReq of
             Inl err \<Rightarrow> (Some (Wrapped ''failed to marshal insert request: '' err), ps)
           | Inr payload \<Rightarrow>
               (case MarshalCommand \<lparr>cmd_Type = CmdInsert, cmd_Payload = payload\<rparr> of
                  Inl err \<Rightarrow> (Some (Wrapped ''failed to marshal command: '' err), ps)
                | Inr comm \<Rightarrow>
                    (case raft_Apply rf ps comm 5 of
                       (Some err, ps') \<Rightarrow> (Some (Wrapped ''raft apply failed: '' err), ps')
                     | (None, ps') \<Rightarrow> (None, ps')))))"

text \<open>The \<open>OnDelete\<close> callback of the node: it logs the collection name and returns nil.\<close>

definition OnDelete :: "proposals \<Rightarrow> DeleteRequest \<Rightarrow> error option \<times> proposals" where
  "OnDelete ps req = (None, ps)"

definition ClusterServer_Insert ::
  "(proposals \<Rightarrow> InsertRequest \<Rightarrow> error option \<times> proposals) option \<Rightarrow> proposals \<Rightarrow> InsertRequest
     \<Rightarrow> (InsertResponse \<times> error option) \<times> proposals" where
  "ClusterServer_Insert onInsert ps req =
     (case onInsert of
        None \<Rightarrow>
          ((\<lparr>iresp_Success = True, iresp_Message = ''inserted successfully''\<rparr>, None), ps)
      | Some callback \<Rightarrow>
          (case callback ps req of
             (Some err, ps') \<Rightarrow>
               ((\<lparr>iresp_Success = False, iresp_Message = Error_text err\<rparr>, Some err), ps')
           | (None, ps') \<Rightarrow>
               ((\<lparr>iresp_Success = True, iresp_Message = ''inserted successfully''\<rparr>, None), ps')))"

definition ClusterServer_Delete ::
  "(proposals \<Rightarrow> DeleteRequest \<Rightarrow> error option \<times> proposals) option \<Rightarrow> proposals \<Rightarrow> DeleteRequest
     \<Rightarrow> (DeleteResponse \<times> error option) \<times> proposals" where
  "ClusterServer_Delete onDelete ps req =
     (case onDelete of
        None \<Rightarrow>
          ((\<lparr>dresp_Success = True, dresp_Message = ''deleted successfully''\<rparr>, None), ps)
      | Some callback \<Rightarrow>
          (case callback ps req of
             (Some err, ps') \<Rightarrow>
               ((\<lparr>dresp_Success = False, dresp_Message = Error_text err\<rparr>, Some err), ps')
           | (None, ps') \<Rightarrow>
               ((\<lparr>dresp_Success = True, dresp_Message = ''deleted successfully''\<rparr>, None), ps')))"

section \<open>Client side: the redirect interceptor (pkg/client)\<close>












section \<open>Properties: address derivation and request classification\<close>

lemma LastIndex_absent: "c \<notin> set s \<Longrightarrow> LastIndex s c = -1"
  by (induction s) (auto simp: Let_def)

lemma LastIndex_last: "c \<notin> set p \<Longrightarrow> LastIndex (h @ c # p) c = int (length h)"
  by (induction h) (auto simp: Let_def LastIndex_absent)

lemma convert_ok:
  assumes "CHR '':'' \<notin> set p"
  shows "convertRaftToClusterAddr (h @ CHR '':'' # p @ ''1'') = Inr (h @ CHR '':'' # p @ ''2'')"
proof -
  have "CHR '':'' \<notin> set (p @ ''1'')" using assms by simp
  then have "LastIndex (h @ CHR '':'' # (p @ ''1'')) CHR '':'' = int (length h)"
    by (rule LastIndex_last)
  then show ?thesis
    by (simp add: convertRaftToClusterAddr_def Let_def nth_append)
qed

lemma convert_no_colon:
  "CHR '':'' \<notin> set a \<Longrightarrow>
   convertRaftToClusterAddr a = Inl (ErrorString (''invalid address format: '' @ a))"
  by (simp add: convertRaftToClusterAddr_def LastIndex_absent)

lemma convert_bad_port:
  assumes "CHR '':'' \<notin> set p" and "p = [] \<or> last p \<noteq> CHR ''1''"
  shows "convertRaftToClusterAddr (h @ CHR '':'' # p) =
         Inl (ErrorString (''raft address must end with '' @ [CHR 39, CHR ''1'', CHR 39]
                             @ '': '' @ h @ CHR '':'' # p))"
proof -
  have "LastIndex (h @ CHR '':'' # p) CHR '':'' = int (length h)"
    using assms(1) by (rule LastIndex_last)
  moreover have "p \<noteq> [] \<Longrightarrow> p ! (length p - 1) = last p"
    by (simp add: last_conv_nth)
  ultimately show ?thesis using assms(2)
    by (auto simp add: convertRaftToClusterAddr_def Let_def)
qed

lemma digit_not_colon: "d < 10 \<Longrightarrow> digit d \<noteq> CHR '':''"
proof -
  assume "d < 10"
  then have "digit d \<in> set ''0123456789''"
    unfolding digit_def by (intro nth_mem) simp
  then show ?thesis by auto
qed

lemma decimal_no_colon: "CHR '':'' \<notin> set (decimal n)"
proof (induction n rule: decimal.induct)
  case (1 n)
  show ?case
  proof (cases "n < 10")
    case True
    then show ?thesis
      using digit_not_colon [of n] by (subst decimal.simps) auto
  next
    case False
    moreover have "digit (n mod 10) \<noteq> CHR '':''"
      by (rule digit_not_colon) simp
    ultimately show ?thesis
      using "1.IH" by (subst decimal.simps) auto
  qed
qed

lemma decimal_last:
  assumes "d < 10"
  shows "decimal (10 * P + d) = (if P = 0 then [] else decimal P) @ [digit d]"
proof (cases "P = 0")
  case True
  with assms show ?thesis by (subst decimal.simps) simp
next
  case False
  then have "\<not> 10 * P + d < 10" by simp
  moreover have "(10 * P + d) div 10 = P" "(10 * P + d) mod 10 = d"
    using assms by simp_all
  ultimately show ?thesis using False by (subst decimal.simps) simp
qed

lemma convert_port_convention:
  "convertRaftToClusterAddr (host @ CHR '':'' # decimal (10 * P + 1)) =
   Inr (host @ CHR '':'' # decimal (10 * P + 2))"
proof -
  let ?pre = "if P = 0 then [] else decimal P"
  have one: "decimal (10 * P + 1) = ?pre @ ''1''"
    using decimal_last [of 1 P] by (simp add: digit_def)
  have two: "decimal (10 * P + 2) = ?pre @ ''2''"
    using decimal_last [of 2 P] by (simp add: digit_def)
  have "CHR '':'' \<notin> set ?pre"
    by (simp add: decimal_no_colon)
  then show ?thesis
    unfolding one two by (rule convert_ok)
qed

lemma decimal_5001: "decimal (10 * 500 + 1) = ''5001''" "decimal (10 * 500 + 2) = ''5002''"
  by (simp_all add: decimal.simps digit_def)

lemma Pairs_redirect:
  "Pairs [(''x-leader-addr'', a), (''x-redirect'', ''true'')] =
   [(''x-leader-addr'', [a]), (''x-redirect'', [''true''])]"
  by (simp add: Pairs_def md_append_def)

lemma isWriteOperation_iff:
  "isWriteOperation m \<longleftrightarrow>
     m \<in> {''/vectorxlite.cluster.ClusterService/CreateCollection'',
           ''/vectorxlite.cluster.ClusterService/Insert'',
           ''/vectorxlite.cluster.ClusterService/Delete'',
           ''/vectorxlite.cluster.ClusterService/JoinCluster'',
           ''/vectorxlite.cluster.ClusterService/LeaveCluster''}"
  by (simp add: isWriteOperation_def writeOperations_def)

text \<open>
  Claim C10. A leader raft address with no colon, or whose port (the text after the last
  colon) is empty or does not end in the character 1, makes \<open>convertRaftToClusterAddr\<close>
  return an error; a write arriving at a non-leader that knows such a leader (a non-empty
  address) is then answered with status Internal, no response metadata, and the handler is
  not run.
\<close>

theorem bad_leader_address_gives_internal:
  assumes "CHR '':'' \<notin> set a \<or>
           (a = host @ CHR '':'' # port \<and> CHR '':'' \<notin> set port \<and>
            (port = [] \<or> last port \<noteq> CHR ''1''))"
  shows "\<exists>err. convertRaftToClusterAddr a = Inl err \<and>
           (isWriteOperation m \<and> node_State n \<noteq> Leader \<and> node_Leader n = a \<and> a \<noteq> [] \<longrightarrow>
              Unary n sh m h q =
                Reject (StatusError Internal ''failed to convert leader address: '' (Some err)) []
              \<and> md_Get [] ''x-leader-addr'' = [] \<and> md_Get [] ''x-redirect'' = [])"
proof -
  obtain err where err: "convertRaftToClusterAddr a = Inl err"
    using assms convert_no_colon [of a] convert_bad_port [of port host] by auto
  have "Unary n sh m h q =
          Reject (StatusError Internal ''failed to convert leader address: '' (Some err)) []"
    if "isWriteOperation m" "node_State n \<noteq> Leader" "node_Leader n = a" "a \<noteq> []"
    using that err by (simp add: Unary_def)
  then show ?thesis
    using err by (simp add: md_Get_def)
qed

text \<open>
  The theorem at a Follower whose leader's raft address is \<open>127.0.0.1:7000\<close>, for an
  Insert.
\<close>

theorem bad_leader_address_gives_internal_witness:
  "\<exists>err. convertRaftToClusterAddr ''127.0.0.1:7000'' = Inl err \<and>
     Unary \<lparr>node_State = Follower, node_Leader = ''127.0.0.1:7000'',
            node_GetConfiguration = Inr []\<rparr>
           (\<lambda>md. None) ''/vectorxlite.cluster.ClusterService/Insert'' (\<lambda>q. q) () =
       Reject (StatusError Internal ''failed to convert leader address: '' (Some err)) []"
proof -
  have "CHR '':'' \<notin> set ''127.0.0.1:7000'' \<or>
        (''127.0.0.1:7000'' = ''127.0.0.1'' @ CHR '':'' # ''7000'' \<and> CHR '':'' \<notin> set ''7000'' \<and>
         (''7000'' = [] \<or> last ''7000'' \<noteq> CHR ''1''))"
    by simp
  from bad_leader_address_gives_internal [OF this,
      of "''/vectorxlite.cluster.ClusterService/Insert''"
         "\<lparr>node_State = Follower, node_Leader = ''127.0.0.1:7000'', node_GetConfiguration = Inr []\<rparr>"
         "\<lambda>md. None" "\<lambda>q. q" "()"]
  show ?thesis
    by (auto simp: isWriteOperation_iff)
qed

section \<open>Properties: the redirect decision of the server interceptor\<close>

text \<open>
  Claim C6, as the code has it. A request classified as a write that reaches a node in any
  state other than Leader (Follower, Candidate or Shutdown alike: the interceptor looks
  only at the leader address) is answered without running the handler:
  \<^item> with no leader address known, by status Unavailable and no response metadata;
  \<^item> with a leader raft address \<open>host:p1\<close> whose port ends in the character 1, and a
    response header that can be set, by status FailedPrecondition with metadata
    \<open>x-leader-addr = host:p2\<close> and \<open>x-redirect = true\<close>, host unchanged;
  \<^item> in particular raft port \<open>10 * P + 1\<close> is mapped to cluster port \<open>10 * P + 2\<close>.
\<close>

theorem nonleader_write_redirect:
  assumes "isWriteOperation m" and "node_State n \<noteq> Leader"
  shows "(node_Leader n = [] \<longrightarrow>
            Unary n sh m h q =
              Reject (StatusError Unavailable ''no leader available, please retry'' None) []
            \<and> md_Get [] ''x-leader-addr'' = [] \<and> md_Get [] ''x-redirect'' = [])
       \<and> (node_Leader n = host @ CHR '':'' # p @ ''1'' \<and> CHR '':'' \<notin> set p \<and>
          sh [(''x-leader-addr'', [host @ CHR '':'' # p @ ''2'']), (''x-redirect'', [''true''])] = None \<longrightarrow>
            Unary n sh m h q =
              Reject (StatusError FailedPrecondition
                        (''not leader, redirect to: '' @ host @ CHR '':'' # p @ ''2'') None)
                     [(''x-leader-addr'', [host @ CHR '':'' # p @ ''2'']), (''x-redirect'', [''true''])])
       \<and> (node_Leader n = host @ CHR '':'' # decimal (10 * P + 1) \<and>
          sh [(''x-leader-addr'', [host @ CHR '':'' # decimal (10 * P + 2)]),
              (''x-redirect'', [''true''])] = None \<longrightarrow>
            Unary n sh m h q =
              Reject (StatusError FailedPrecondition
                        (''not leader, redirect to: '' @ host @ CHR '':'' # decimal (10 * P + 2)) None)
                     [(''x-leader-addr'', [host @ CHR '':'' # decimal (10 * P + 2)]),
                      (''x-redirect'', [''true''])])"
proof (intro conjI impI)
  assume "node_Leader n = []"
  then show "Unary n sh m h q =
      Reject (StatusError Unavailable ''no leader available, please retry'' None) []"
    using assms by (simp add: Unary_def)
next
  show "md_Get [] ''x-leader-addr'' = []" "md_Get [] ''x-redirect'' = []"
    by (simp_all add: md_Get_def)
next
  let ?c = "host @ CHR '':'' # p @ ''2''"
  assume a: "node_Leader n = host @ CHR '':'' # p @ ''1'' \<and> CHR '':'' \<notin> set p \<and>
          sh [(''x-leader-addr'', [?c]), (''x-redirect'', [''true''])] = None"
  then have "convertRaftToClusterAddr (node_Leader n) = Inr ?c"
    by (simp add: convert_ok)
  then show "Unary n sh m h q =
      Reject (StatusError FailedPrecondition (''not leader, redirect to: '' @ ?c) None)
             [(''x-leader-addr'', [?c]), (''x-redirect'', [''true''])]"
    using assms a by (simp add: Unary_def Pairs_redirect)
next
  let ?c = "host @ CHR '':'' # decimal (10 * P + 2)"
  assume a: "node_Leader n = host @ CHR '':'' # decimal (10 * P + 1) \<and>
          sh [(''x-leader-addr'', [?c]), (''x-redirect'', [''true''])] = None"
  then have "convertRaftToClusterAddr (node_Leader n) = Inr ?c"
    using convert_port_convention [of host P] by simp
  moreover have "node_Leader n \<noteq> []" using a by simp
  ultimately show "Unary n sh m h q =
      Reject (StatusError FailedPrecondition (''not leader, redirect to: '' @ ?c) None)
             [(''x-leader-addr'', [?c]), (''x-redirect'', [''true''])]"
    using assms a by (simp add: Unary_def Pairs_redirect)
qed

text \<open>
  The theorem at a Candidate with no leader known, and at a Follower whose leader's raft
  address is \<open>10.0.0.7:5001\<close>.
\<close>

theorem nonleader_write_redirect_witness:
  "Unary \<lparr>node_State = Candidate, node_Leader = [], node_GetConfiguration = Inr []\<rparr>
         (\<lambda>md. None) ''/vectorxlite.cluster.ClusterService/Delete'' (\<lambda>q. q) () =
     Reject (StatusError Unavailable ''no leader available, please retry'' None) []
   \<and> Unary \<lparr>node_State = Follower, node_Leader = ''10.0.0.7:5001'', node_GetConfiguration = Inr []\<rparr>
         (\<lambda>md. None) ''/vectorxlite.cluster.ClusterService/Insert'' (\<lambda>q. q) () =
     Reject (StatusError FailedPrecondition ''not leader, redirect to: 10.0.0.7:5002'' None)
            [(''x-leader-addr'', [''10.0.0.7:5002'']), (''x-redirect'', [''true''])]"
proof -
  have w: "isWriteOperation ''/vectorxlite.cluster.ClusterService/Delete''"
          "isWriteOperation ''/vectorxlite.cluster.ClusterService/Insert''"
    by (simp_all add: isWriteOperation_iff)
  have 1: "Unary \<lparr>node_State = Candidate, node_Leader = [], node_GetConfiguration = Inr []\<rparr>
         (\<lambda>md. None) ''/vectorxlite.cluster.ClusterService/Delete'' (\<lambda>q. q) () =
     Reject (StatusError Unavailable ''no leader available, please retry'' None) []"
    using nonleader_write_redirect [OF w(1),
        of "\<lparr>node_State = Candidate, node_Leader = [], node_GetConfiguration = Inr []\<rparr>"
           "\<lambda>md. None" "\<lambda>q. q" "()"]
    by simp
  have 2: "Unary \<lparr>node_State = Follower, node_Leader = ''10.0.0.7:5001'', node_GetConfiguration = Inr []\<rparr>
         (\<lambda>md. None) ''/vectorxlite.cluster.ClusterService/Insert'' (\<lambda>q. q) () =
     Reject (StatusError FailedPrecondition ''not leader, redirect to: 10.0.0.7:5002'' None)
            [(''x-leader-addr'', [''10.0.0.7:5002'']), (''x-redirect'', [''true''])]"
    using nonleader_write_redirect [OF w(2),
        of "\<lparr>node_State = Follower, node_Leader = ''10.0.0.7:5001'', node_GetConfiguration = Inr []\<rparr>"
           "\<lambda>md. None" "\<lambda>q. q" "()" "''10.0.0.7''" "''500''" 500]
    by (simp add: decimal_5001)
  from 1 2 show ?thesis by blast
qed

text \<open>
  The claim as first stated fails where a leader is known but its raft port does not end in
  1: a Follower whose leader is at \<open>127.0.0.1:7000\<close> answers a write with status Internal
  and no metadata, not with FailedPrecondition and a redirect.
\<close>

theorem nonleader_write_bad_port_counterexample:
  "isWriteOperation ''/vectorxlite.cluster.ClusterService/Insert'' \<and>
   Unary \<lparr>node_State = Follower, node_Leader = ''127.0.0.1:7000'', node_GetConfiguration = Inr []\<rparr>
         (\<lambda>md. None) ''/vectorxlite.cluster.ClusterService/Insert'' (\<lambda>q. q) () =
     Reject (StatusError Internal ''failed to convert leader address: ''
               (Some (ErrorString (''raft address must end with '' @ [CHR 39, CHR ''1'', CHR 39]
                                     @ '': 127.0.0.1:7000'')))) []"
  by (simp add: isWriteOperation_iff Unary_def convertRaftToClusterAddr_def)

text \<open>
  Claim C5, as the code has it. The classification table holds exactly CreateCollection,
  Insert, Delete and the membership methods JoinCluster and LeaveCluster. A method of the
  table that reaches a non-leader is answered by the interceptor and never handed to the
  local handler; every other method, DropCollection among them, is handed to the local
  handler whatever the node's state.
\<close>

theorem write_classification:
  "(isWriteOperation m \<longleftrightarrow>
      m \<in> {''/vectorxlite.cluster.ClusterService/CreateCollection'',
            ''/vectorxlite.cluster.ClusterService/Insert'',
            ''/vectorxlite.cluster.ClusterService/Delete'',
            ''/vectorxlite.cluster.ClusterService/JoinCluster'',
            ''/vectorxlite.cluster.ClusterService/LeaveCluster''})
   \<and> (isWriteOperation m \<and> node_State n \<noteq> Leader \<longrightarrow> (\<exists>err md. Unary n sh m h q = Reject err md))
   \<and> (\<not> isWriteOperation m \<longrightarrow> Unary n sh m h q = Handler (h q))"
proof (intro conjI impI)
  show "isWriteOperation m \<longleftrightarrow>
      m \<in> {''/vectorxlite.cluster.ClusterService/CreateCollection'',
            ''/vectorxlite.cluster.ClusterService/Insert'',
            ''/vectorxlite.cluster.ClusterService/Delete'',
            ''/vectorxlite.cluster.ClusterService/JoinCluster'',
            ''/vectorxlite.cluster.ClusterService/LeaveCluster''}"
    by (rule isWriteOperation_iff)
next
  assume "isWriteOperation m \<and> node_State n \<noteq> Leader"
  then show "\<exists>err md. Unary n sh m h q = Reject err md"
    by (simp add: Unary_def Let_def split: sum.split option.split)
next
  assume "\<not> isWriteOperation m"
  then show "Unary n sh m h q = Handler (h q)"
    by (simp add: Unary_def)
qed

text \<open>The theorem at a Follower, for a Delete (intercepted) and a Search (handled).\<close>

theorem write_classification_witness:
  "isWriteOperation ''/vectorxlite.cluster.ClusterService/Delete'' \<and>
   (\<exists>err md. Unary \<lparr>node_State = Follower, node_Leader = ''127.0.0.1:5001'', node_GetConfiguration = Inr []\<rparr>
         (\<lambda>md. None) ''/vectorxlite.cluster.ClusterService/Delete'' (\<lambda>q. q) () = Reject err md) \<and>
   Unary \<lparr>node_State = Follower, node_Leader = ''127.0.0.1:5001'', node_GetConfiguration = Inr []\<rparr>
         (\<lambda>md. None) ''/vectorxlite.cluster.ClusterService/Search'' (\<lambda>q. q) () = Handler ()"
proof -
  note a = write_classification [of "''/vectorxlite.cluster.ClusterService/Delete''"
      "\<lparr>node_State = Follower, node_Leader = ''127.0.0.1:5001'', node_GetConfiguration = Inr []\<rparr>"
      "\<lambda>md. None" "\<lambda>q. q" "()"]
  note b = write_classification [of "''/vectorxlite.cluster.ClusterService/Search''"
      "\<lparr>node_State = Follower, node_Leader = ''127.0.0.1:5001'', node_GetConfiguration = Inr []\<rparr>"
      "\<lambda>md. None" "\<lambda>q. q" "()"]
  have 1: "isWriteOperation ''/vectorxlite.cluster.ClusterService/Delete''"
    using a by simp
  have 2: "\<exists>err md. Unary \<lparr>node_State = Follower, node_Leader = ''127.0.0.1:5001'', node_GetConfiguration = Inr []\<rparr>
         (\<lambda>md. None) ''/vectorxlite.cluster.ClusterService/Delete'' (\<lambda>q. q) () = Reject err md"
    using a 1 by simp
  have 3: "Unary \<lparr>node_State = Follower, node_Leader = ''127.0.0.1:5001'', node_GetConfiguration = Inr []\<rparr>
         (\<lambda>md. None) ''/vectorxlite.cluster.ClusterService/Search'' (\<lambda>q. q) () = Handler ()"
    using b by simp
  from 1 2 3 show ?thesis by blast
qed

text \<open>
  The claim as first stated fails for DropCollection: the method is not classified as a
  write, and at a Follower that knows its leader the interceptor runs the local handler.
\<close>

theorem drop_collection_not_intercepted_counterexample:
  "\<not> isWriteOperation ''/vectorxlite.cluster.ClusterService/DropCollection'' \<and>
   Unary \<lparr>node_State = Follower, node_Leader = ''127.0.0.1:5001'', node_GetConfiguration = Inr []\<rparr>
         (\<lambda>md. None) ''/vectorxlite.cluster.ClusterService/DropCollection'' (\<lambda>q. q) () = Handler ()"
  by (simp add: isWriteOperation_iff Unary_def)

section \<open>Properties: cluster introspection\<close>

text \<open>
  Claim C4, as the code has it. Every GetClusterInfo response carries in its leader address
  field the leader's raft (consensus) address exactly as the consensus node reports it; no
  port conversion is applied.
\<close>

theorem cluster_info_leader_addr:
  assumes "GetClusterInfo n = Inr r"
  shows "cir_LeaderAddr r = node_Leader n"
  using assms
  by (auto simp: GetClusterInfo_def getLeaderAddr_def Let_def split: sum.splits)

text \<open>The theorem at a one-node configuration whose leader is at \<open>127.0.0.1:5001\<close>.\<close>

theorem cluster_info_leader_addr_witness:
  "GetClusterInfo \<lparr>node_State = Follower, node_Leader = ''127.0.0.1:5001'',
       node_GetConfiguration = Inr [\<lparr>srv_Suffrage = Voter, srv_ID = ''node1'', srv_Address = ''127.0.0.1:5001''\<rparr>]\<rparr>
     = Inr \<lparr>cir_LeaderId = ''node1'', cir_LeaderAddr = ''127.0.0.1:5001'',
            cir_Nodes = [\<lparr>ni_NodeId = ''node1'', ni_Addr = ''127.0.0.1:5001'',
                          ni_State = ''leader'', ni_IsVoter = True\<rparr>],
            cir_State = ''Follower''\<rparr>
   \<and> cir_LeaderAddr \<lparr>cir_LeaderId = ''node1'', cir_LeaderAddr = ''127.0.0.1:5001'',
            cir_Nodes = [\<lparr>ni_NodeId = ''node1'', ni_Addr = ''127.0.0.1:5001'',
                          ni_State = ''leader'', ni_IsVoter = True\<rparr>],
            cir_State = ''Follower''\<rparr> = ''127.0.0.1:5001''"
proof -
  have g: "GetClusterInfo \<lparr>node_State = Follower, node_Leader = ''127.0.0.1:5001'',
       node_GetConfiguration = Inr [\<lparr>srv_Suffrage = Voter, srv_ID = ''node1'', srv_Address = ''127.0.0.1:5001''\<rparr>]\<rparr>
     = Inr \<lparr>cir_LeaderId = ''node1'', cir_LeaderAddr = ''127.0.0.1:5001'',
            cir_Nodes = [\<lparr>ni_NodeId = ''node1'', ni_Addr = ''127.0.0.1:5001'',
                          ni_State = ''leader'', ni_IsVoter = True\<rparr>],
            cir_State = ''Follower''\<rparr>"
    by (simp add: GetClusterInfo_def getLeaderAddr_def nodeInfoOf_def Let_def)
  from cluster_info_leader_addr [OF g] g show ?thesis by simp
qed

text \<open>
  The claim as first stated fails: with the leader's raft address \<open>127.0.0.1:5001\<close> the
  response names \<open>127.0.0.1:5001\<close> as leader address, while the address a client can dial,
  by the port convention, is \<open>127.0.0.1:5002\<close>.
\<close>

theorem cluster_info_raw_address_counterexample:
  "GetClusterInfo \<lparr>node_State = Follower, node_Leader = ''127.0.0.1:5001'',
       node_GetConfiguration = Inr [\<lparr>srv_Suffrage = Voter, srv_ID = ''node1'', srv_Address = ''127.0.0.1:5001''\<rparr>]\<rparr>
     = Inr \<lparr>cir_LeaderId = ''node1'', cir_LeaderAddr = ''127.0.0.1:5001'',
            cir_Nodes = [\<lparr>ni_NodeId = ''node1'', ni_Addr = ''127.0.0.1:5001'',
                          ni_State = ''leader'', ni_IsVoter = True\<rparr>],
            cir_State = ''Follower''\<rparr>
   \<and> convertRaftToClusterAddr ''127.0.0.1:5001'' = Inr ''127.0.0.1:5002''"
  by (simp add: GetClusterInfo_def getLeaderAddr_def nodeInfoOf_def convertRaftToClusterAddr_def Let_def)

section \<open>Properties: the snapshot frame codec\<close>

lemma length_PutUint32: "length (BigEndian_PutUint32 v) = 4"
  by (simp add: BigEndian_PutUint32_def)

lemma Uint32_PutUint32: "BigEndian_Uint32 (BigEndian_PutUint32 v) = v"
proof (rule bit_word_eqI)
  fix n
  assume "n < LENGTH(32)"
  then consider "n < 8" | "8 \<le> n" "n < 16" | "16 \<le> n" "n < 24" | "24 \<le> n" "n < 32"
    by fastforce
  then show "bit (BigEndian_Uint32 (BigEndian_PutUint32 v)) n = bit v n"
    unfolding BigEndian_Uint32_def BigEndian_PutUint32_def
    by cases (auto simp: bit_simps)
qed

lemma unat_length32: "n < 2 ^ 32 \<Longrightarrow> unat (word_of_nat n :: 32 word) = n"
  by (simp add: unat_of_nat)

lemma binary_Read_prefix:
  "binary_Read (BigEndian_PutUint32 v @ r) = (Inr v, r)"
  by (simp add: binary_Read_def io_ReadFull_def length_PutUint32 Uint32_PutUint32)

lemma readChunk_frame:
  assumes "length d < 2 ^ 32"
  shows "readChunk U (BigEndian_PutUint32 (word_of_nat (length d)) @ d @ rest) =
           ((case U d of
               Inl err \<Rightarrow> Inl (Wrapped ''failed to unmarshal chunk: '' err)
             | Inr c \<Rightarrow> Inr c), rest)"
  using assms
  by (simp add: readChunk_def binary_Read_prefix io_ReadFull_def unat_length32 split: sum.split)

lemma writeChunk_buffer:
  "M c = Inr d \<Longrightarrow>
   writeChunk M bufferWrite buf c =
     (buf @ BigEndian_PutUint32 (word_of_nat (length d)) @ d, None)"
  by (simp add: writeChunk_def binary_Write_def bufferWrite_def)

lemma writeChunksFrom_buffer:
  assumes "\<forall>c\<in>set cs. M c = Inr (D c)"
  shows "writeChunksFrom M bufferWrite buf i cs =
           (buf @ concat (map (\<lambda>c. BigEndian_PutUint32 (word_of_nat (length (D c))) @ D c) cs), None)"
  using assms
  by (induction cs arbitrary: buf i) (simp_all add: writeChunk_buffer)

lemma readLoop_empty: "readLoop U [] acc = Inr acc"
  by (subst readLoop.simps) (simp add: readChunk_def binary_Read_def io_ReadFull_def)

lemma readLoop_frames:
  assumes "\<forall>c\<in>set cs. U (D c) = Inr c \<and> length (D c) < 2 ^ 32 \<and> \<not> sc_IsFinal c"
  shows "readLoop U (concat (map (\<lambda>c. BigEndian_PutUint32 (word_of_nat (length (D c))) @ D c) cs) @ tail) acc
         = readLoop U tail (acc @ cs)"
  using assms
proof (induction cs arbitrary: acc)
  case Nil
  then show ?case by simp
next
  case (Cons c cs)
  then have c: "U (D c) = Inr c" "length (D c) < 2 ^ 32" "\<not> sc_IsFinal c"
    by simp_all
  have "readLoop U (concat (map (\<lambda>c. BigEndian_PutUint32 (word_of_nat (length (D c))) @ D c) (c # cs)) @ tail) acc
        = readLoop U (concat (map (\<lambda>c. BigEndian_PutUint32 (word_of_nat (length (D c))) @ D c) cs) @ tail) (acc @ [c])"
    by (subst readLoop.simps) (simp add: readChunk_frame [OF c(2)] c(1) c(3))
  also have "\<dots> = readLoop U tail ((acc @ [c]) @ cs)"
    using Cons.prems by (intro Cons.IH) simp
  finally show ?case by simp
qed

lemma readLoop_final:
  assumes "U d = Inr c" "length d < 2 ^ 32" "sc_IsFinal c"
  shows "readLoop U (BigEndian_PutUint32 (word_of_nat (length d)) @ d @ rest) acc = Inr (acc @ [c])"
  by (subst readLoop.simps) (simp add: readChunk_frame [OF assms(2)] assms(1) assms(3))

lemma roundtrip_general:
  assumes codec: "\<forall>c\<in>set chunks. \<exists>d. M c = Inr d \<and> U d = Inr c \<and> length d < 2 ^ 32"
      and early: "\<forall>c\<in>set (butlast chunks). \<not> sc_IsFinal c"
  shows "\<exists>ds. map M chunks = map Inr ds \<and>
              writeChunksFrom M bufferWrite [] 0 chunks =
                (concat (map (\<lambda>d. BigEndian_PutUint32 (word_of_nat (length d)) @ d) ds), None) \<and>
              readLoop U (concat (map (\<lambda>d. BigEndian_PutUint32 (word_of_nat (length d)) @ d) ds)) []
                = Inr chunks"
proof -
  define D where "D c = projr (M c)" for c
  let ?fr = "\<lambda>c. BigEndian_PutUint32 (word_of_nat (length (D c))) @ D c"
  have D: "M c = Inr (D c)" "U (D c) = Inr c" "length (D c) < 2 ^ 32" if "c \<in> set chunks" for c
    using codec that by (auto simp: D_def)
  have w: "writeChunksFrom M bufferWrite [] 0 chunks = (concat (map ?fr chunks), None)"
    using writeChunksFrom_buffer [of chunks M D "[]" 0] D(1) by simp
  have "readLoop U (concat (map ?fr chunks)) [] = Inr chunks"
  proof (cases "chunks = []")
    case True
    then show ?thesis by (simp add: readLoop_empty)
  next
    case False
    then have split: "chunks = butlast chunks @ [last chunks]" by simp
    have bl: "\<forall>c\<in>set (butlast chunks). U (D c) = Inr c \<and> length (D c) < 2 ^ 32 \<and> \<not> sc_IsFinal c"
      using D early by (auto dest: in_set_butlastD)
    have lastin: "last chunks \<in> set chunks" using False by simp
    have "concat (map ?fr chunks) = concat (map ?fr (butlast chunks)) @ ?fr (last chunks) @ []"
      by (subst split) simp
    then have "readLoop U (concat (map ?fr chunks)) []
               = readLoop U (?fr (last chunks) @ []) ([] @ butlast chunks)"
      using readLoop_frames [OF bl, of "?fr (last chunks) @ []" "[]"] by simp
    also have "\<dots> = Inr chunks"
    proof (cases "sc_IsFinal (last chunks)")
      case True
      have "readLoop U (BigEndian_PutUint32 (word_of_nat (length (D (last chunks)))) @ D (last chunks) @ [])
              (butlast chunks) = Inr (butlast chunks @ [last chunks])"
        using D(2) [OF lastin] D(3) [OF lastin] True
        by (rule readLoop_final [where U = U and d = "D (last chunks)" and c = "last chunks"])
      then show ?thesis using split by simp
    next
      case nf: False
      have one: "\<forall>c\<in>set [last chunks]. U (D c) = Inr c \<and> length (D c) < 2 ^ 32 \<and> \<not> sc_IsFinal c"
        using D lastin nf by simp
      have "readLoop U (concat (map ?fr [last chunks]) @ []) (butlast chunks)
            = readLoop U [] (butlast chunks @ [last chunks])"
        by (rule readLoop_frames [OF one])
      then show ?thesis using split by (simp add: readLoop_empty)
    qed
    finally show ?thesis .
  qed
  moreover have "map M chunks = map Inr (map D chunks)"
    using D(1) by simp
  moreover have "concat (map ?fr chunks) =
      concat (map (\<lambda>d. BigEndian_PutUint32 (word_of_nat (length d)) @ d) (map D chunks))"
    by (simp add: comp_def)
  ultimately show ?thesis
    using w by (intro exI [where x = "map D chunks"]) simp
qed

text \<open>
  Claim C7, with the bound the four-byte length prefix sets. Take a chunk sequence with
  sequence numbers contiguous from 0 and exactly one final chunk, the last, each chunk of
  which the JSON codec serialises to fewer than \<open>2 ^ 32\<close> bytes and reads back unchanged.
  Then the writer, on an in-memory sink, succeeds; the byte stream it produces is, chunk
  after chunk, the length of the chunk's payload as four big-endian bytes followed by the
  payload; and from that stream \<open>readSnapshotChunks\<close> returns exactly the original
  sequence.
\<close>

theorem frame_codec_roundtrip:
  assumes "col_Chunks collector = chunks"
      and "map sc_Sequence chunks = map word_of_nat [0..<length chunks]"
      and "chunks \<noteq> []"
      and "sc_IsFinal (last chunks)"
      and "\<forall>c\<in>set (butlast chunks). \<not> sc_IsFinal c"
      and "\<forall>c\<in>set chunks. \<exists>d. Marshal c = Inr d \<and> Unmarshal d = Inr c \<and> length d < 2 ^ 32"
  shows "\<exists>ds. map Marshal chunks = map Inr ds \<and>
              writeSnapshotToSink Marshal bufferWrite [] collector =
                (concat (map (\<lambda>d. BigEndian_PutUint32 (word_of_nat (length d)) @ d) ds), None) \<and>
              readSnapshotChunks Unmarshal
                (concat (map (\<lambda>d. BigEndian_PutUint32 (word_of_nat (length d)) @ d) ds))
                = Inr chunks"
  using roundtrip_general [OF assms(6) assms(5)] assms(1)
  by (simp add: writeSnapshotToSink_def readSnapshotChunks_def)

text \<open>
  The theorem at a two-chunk sequence, for a codec that writes a chunk as the one byte
  0 or 1: the stream is \<open>00 00 00 01 00 00 00 00 01 01\<close>.
\<close>

theorem frame_codec_roundtrip_witness:
  "readSnapshotChunks
     (\<lambda>d. if d = [0] then Inr \<lparr>sc_Metadata = None, sc_FileChunk = None, sc_Sequence = 0, sc_IsFinal = False\<rparr>
          else if d = [1] then Inr \<lparr>sc_Metadata = None, sc_FileChunk = None, sc_Sequence = 1, sc_IsFinal = True\<rparr>
          else Inl (ErrorString ''invalid''))
     [0, 0, 0, 1, 0, 0, 0, 0, 1, 1]
   = Inr [\<lparr>sc_Metadata = None, sc_FileChunk = None, sc_Sequence = 0, sc_IsFinal = False\<rparr>,
          \<lparr>sc_Metadata = None, sc_FileChunk = None, sc_Sequence = 1, sc_IsFinal = True\<rparr>]"
proof -
  let ?c0 = "\<lparr>sc_Metadata = None, sc_FileChunk = None, sc_Sequence = 0, sc_IsFinal = False\<rparr>"
  let ?c1 = "\<lparr>sc_Metadata = None, sc_FileChunk = None, sc_Sequence = 1, sc_IsFinal = True\<rparr>"
  let ?M = "\<lambda>c. Inr [if sc_IsFinal c then 1 else 0 :: byte] :: error + byte list"
  let ?U = "\<lambda>d. if d = [0 :: byte] then Inr ?c0 else if d = [1] then Inr ?c1
                 else Inl (ErrorString ''invalid'')"
  let ?col = "\<lparr>col_Metadata = None, col_Chunks = [?c0, ?c1]\<rparr>"
  have "\<exists>ds. map ?M [?c0, ?c1] = map Inr ds \<and>
          writeSnapshotToSink ?M bufferWrite [] ?col =
            (concat (map (\<lambda>d. BigEndian_PutUint32 (word_of_nat (length d)) @ d) ds), None) \<and>
          readSnapshotChunks ?U
            (concat (map (\<lambda>d. BigEndian_PutUint32 (word_of_nat (length d)) @ d) ds))
            = Inr [?c0, ?c1]"
    by (rule frame_codec_roundtrip) (simp_all add: upt_rec)
  then obtain ds where m: "map ?M [?c0, ?c1] = map Inr ds"
    and r: "readSnapshotChunks ?U
              (concat (map (\<lambda>d. BigEndian_PutUint32 (word_of_nat (length d)) @ d) ds))
            = Inr [?c0, ?c1]"
    by blast
  from m have "ds = [[0], [1]]"
    by (auto simp: Cons_eq_map_conv)
  with r show ?thesis
    by (simp add: BigEndian_PutUint32_def)
qed

lemma length_bytes_of: "length (bytes_of s) = length s"
  by (simp add: bytes_of_def)

lemma long_payload_frame:
  assumes len: "length full = 2 ^ 32 + 114"
  shows "writeSnapshotToSink (\<lambda>c. Inr full) bufferWrite []
           \<lparr>col_Metadata = None, col_Chunks = [chunk]\<rparr> = ([0, 0, 0, 114] @ full, None)"
    and "readSnapshotChunks (\<lambda>d. if d = full then Inr chunk else Inl e) ([0, 0, 0, 114] @ full)
           = Inl (Wrapped ''failed to read chunk: '' (Wrapped ''failed to unmarshal chunk: '' e))"
proof -
  have w32: "(word_of_nat (length full) :: 32 word) = 114"
    unfolding len by simp
  have put: "BigEndian_PutUint32 114 = [0, 0, 0, 114]"
    by (simp add: BigEndian_PutUint32_def)
  show "writeSnapshotToSink (\<lambda>c. Inr full) bufferWrite []
           \<lparr>col_Metadata = None, col_Chunks = [chunk]\<rparr> = ([0, 0, 0, 114] @ full, None)"
    by (simp add: writeSnapshotToSink_def writeChunk_def binary_Write_def bufferWrite_def
          w32 put)
  have ne: "take 114 full \<noteq> full"
  proof
    assume "take 114 full = full"
    then have "length (take 114 full) = length full" by simp
    then show False unfolding len by simp
  qed
  have "readChunk (\<lambda>d. if d = full then Inr chunk else Inl e) (BigEndian_PutUint32 114 @ full)
          = (Inl (Wrapped ''failed to unmarshal chunk: '' e), drop 114 full)"
    using ne len
    by (simp add: readChunk_def binary_Read_prefix io_ReadFull_def)
  then show "readSnapshotChunks (\<lambda>d. if d = full then Inr chunk else Inl e) ([0, 0, 0, 114] @ full)
           = Inl (Wrapped ''failed to read chunk: '' (Wrapped ''failed to unmarshal chunk: '' e))"
    unfolding readSnapshotChunks_def put
    by (subst readLoop.simps) simp
qed

text \<open>
  The claim as first stated, for every sequence, fails where a payload is \<open>2 ^ 32\<close> bytes
  or longer: \<^verbatim>\<open>uint32(len(data))\<close> wraps. The chunk below carries 3 GiB of zero bytes; its
  JSON text is 63 bytes, then \<open>2 ^ 32\<close> letters A (the base64 of the data), then 51 bytes.
  The frame written starts with the length \<open>00 00 00 72\<close> (114), the reader takes the first
  114 bytes as the payload, and deserializing them fails. \<open>Marshal\<close> and \<open>Unmarshal\<close> here
  are \<^verbatim>\<open>encoding/json\<close> on this chunk and on these two texts.
\<close>

theorem frame_codec_long_payload_counterexample:
  \<open>let full = bytes_of ''{"Metadata":null,"FileChunk":{"FileName":"","Offset":0,"Data":"''
                @ replicate (2 ^ 32) 65
                @ bytes_of ''","IsLastChunk":false},"Sequence":0,"IsFinal":true}'';
       chunk = \<lparr>sc_Metadata = None,
                sc_FileChunk = Some \<lparr>fc_FileName = [], fc_Offset = 0,
                                     fc_Data = replicate (3 * 2 ^ 30) 0, fc_IsLastChunk = False\<rparr>,
                sc_Sequence = 0, sc_IsFinal = True\<rparr>;
       Marshal = (\<lambda>c. Inr full);
       Unmarshal = (\<lambda>d. if d = full then Inr chunk
                         else Inl (ErrorString ''unexpected end of JSON input''))
   in Unmarshal full = Inr chunk
    \<and> sc_Sequence chunk = 0 \<and> sc_IsFinal chunk
    \<and> writeSnapshotToSink Marshal bufferWrite [] \<lparr>col_Metadata = None, col_Chunks = [chunk]\<rparr>
        = ([0, 0, 0, 114] @ full, None)
    \<and> readSnapshotChunks Unmarshal ([0, 0, 0, 114] @ full)
        = Inl (Wrapped ''failed to read chunk: ''
                (Wrapped ''failed to unmarshal chunk: ''
                  (ErrorString ''unexpected end of JSON input'')))\<close>
proof -
  define full :: "byte list" where
    \<open>full = bytes_of ''{"Metadata":null,"FileChunk":{"FileName":"","Offset":0,"Data":"''
                @ replicate (2 ^ 32) 65
                @ bytes_of ''","IsLastChunk":false},"Sequence":0,"IsFinal":true}''\<close>
  have len: "length full = 2 ^ 32 + 114"
    by (simp add: full_def length_bytes_of)
  show ?thesis
    unfolding Let_def full_def [symmetric]
    using long_payload_frame [OF len] by simp
qed

section \<open>Properties: restoring from a malformed stream\<close>

lemma readLoop_bad_tail:
  assumes "(0 < length tail \<and> length tail < 4)
         \<or> (tail = BigEndian_PutUint32 n @ rest \<and> length rest < unat n)
         \<or> (tail = BigEndian_PutUint32 n @ d @ rest \<and> length d = unat n \<and> U d = Inl e)"
  shows "\<exists>err. readLoop U tail acc = Inl err"
  using assms
proof (elim disjE conjE)
  assume "0 < length tail" "length tail < 4"
  then have "readChunk U tail = (Inl ErrUnexpectedEOF, [])"
    by (auto simp: readChunk_def binary_Read_def io_ReadFull_def)
  then show ?thesis
    by (subst readLoop.simps) simp
next
  assume t: "tail = BigEndian_PutUint32 n @ rest" and short: "length rest < unat n"
  have "\<exists>x. readChunk U tail = (Inl (Wrapped ''failed to read chunk data: '' x), [])"
    using short unfolding t
    by (simp add: readChunk_def binary_Read_prefix io_ReadFull_def)
  then show ?thesis
    by (subst readLoop.simps) auto
next
  assume t: "tail = BigEndian_PutUint32 n @ d @ rest" and len: "length d = unat n"
    and bad: "U d = Inl e"
  have "readChunk U tail = (Inl (Wrapped ''failed to unmarshal chunk: '' e), rest)"
    unfolding t using len bad
    by (simp add: readChunk_def binary_Read_prefix io_ReadFull_def)
  then show ?thesis
    by (subst readLoop.simps) simp
qed

text \<open>
  Claim C8, for a malformation that the reader reaches. Let the stream be what the writer
  produced for chunks none of which is final (each within the codec's reach, as in C7),
  followed by a tail that is
  \<^item> one to three bytes, a cut length prefix; or
  \<^item> a length prefix \<open>n\<close> followed by fewer than \<open>n\<close> bytes; or
  \<^item> a whole frame whose payload fails to deserialize.
  Then \<open>readSnapshotChunks\<close> fails, \<open>Restore\<close> returns that error, and the list of calls
  sent to the backend is unchanged: \<open>ImportSnapshot\<close> is not invoked.
\<close>

theorem restore_malformed_stream:
  assumes wr: "writeSnapshotToSink Marshal bufferWrite [] collector = (pre, None)"
      and codec: "\<forall>c\<in>set (col_Chunks collector).
                    \<exists>d. Marshal c = Inr d \<and> Unmarshal d = Inr c \<and> length d < 2 ^ 32"
      and nonfinal: "\<forall>c\<in>set (col_Chunks collector). \<not> sc_IsFinal c"
      and bad: "(0 < length tail \<and> length tail < 4)
              \<or> (tail = BigEndian_PutUint32 n @ rest \<and> length rest < unat n)
              \<or> (tail = BigEndian_PutUint32 n @ d @ rest \<and> length d = unat n \<and> Unmarshal d = Inl e)"
  shows "\<exists>err. readSnapshotChunks Unmarshal (pre @ tail) = Inl err \<and>
               Restore Unmarshal be calls (pre @ tail) = (Some err, calls)"
proof -
  define D where "D c = projr (Marshal c)" for c
  let ?fr = "\<lambda>c. BigEndian_PutUint32 (word_of_nat (length (D c))) @ D c"
  let ?cs = "col_Chunks collector"
  have D: "Marshal c = Inr (D c)" "Unmarshal (D c) = Inr c" "length (D c) < 2 ^ 32"
    if "c \<in> set ?cs" for c
    using codec that by (auto simp: D_def)
  have "writeChunksFrom Marshal bufferWrite [] 0 ?cs = (concat (map ?fr ?cs), None)"
    using writeChunksFrom_buffer [of ?cs Marshal D "[]" 0] D(1) by simp
  with wr have pre: "pre = concat (map ?fr ?cs)"
    by (simp add: writeSnapshotToSink_def)
  have good: "\<forall>c\<in>set ?cs. Unmarshal (D c) = Inr c \<and> length (D c) < 2 ^ 32 \<and> \<not> sc_IsFinal c"
    using D nonfinal by simp
  have "readLoop Unmarshal (pre @ tail) [] = readLoop Unmarshal tail ([] @ ?cs)"
    unfolding pre by (rule readLoop_frames [OF good])
  moreover obtain err where "readLoop Unmarshal tail ([] @ ?cs) = Inl err"
    using readLoop_bad_tail [where U = Unmarshal and tail = tail and n = n and rest = rest
        and d = d and e = e and acc = "[] @ ?cs"] bad by blast
  ultimately have "readSnapshotChunks Unmarshal (pre @ tail) = Inl err"
    by (simp add: readSnapshotChunks_def)
  then show ?thesis
    by (simp add: Restore_def)
qed

text \<open>
  The theorem at a stream of one whole frame followed by the length prefix 5 and two
  bytes of payload.
\<close>

theorem restore_malformed_stream_witness:
  "\<exists>err. readSnapshotChunks
            (\<lambda>d. if d = [0] then Inr \<lparr>sc_Metadata = None, sc_FileChunk = None, sc_Sequence = 0, sc_IsFinal = False\<rparr>
                 else Inl (ErrorString ''invalid''))
            ([0, 0, 0, 1, 0] @ [0, 0, 0, 5, 1, 2]) = Inl err \<and>
          Restore
            (\<lambda>d. if d = [0] then Inr \<lparr>sc_Metadata = None, sc_FileChunk = None, sc_Sequence = 0, sc_IsFinal = False\<rparr>
                 else Inl (ErrorString ''invalid''))
            (\<lambda>calls c. None) [] ([0, 0, 0, 1, 0] @ [0, 0, 0, 5, 1, 2]) = (Some err, [])"
proof -
  let ?c0 = "\<lparr>sc_Metadata = None, sc_FileChunk = None, sc_Sequence = 0, sc_IsFinal = False\<rparr>"
  let ?M = "\<lambda>c :: SnapshotChunk. Inr [0 :: byte] :: error + byte list"
  let ?U = "\<lambda>d. if d = [0 :: byte] then Inr ?c0 else Inl (ErrorString ''invalid'')"
  let ?col = "\<lparr>col_Metadata = None, col_Chunks = [?c0]\<rparr>"
  have w: "writeSnapshotToSink ?M bufferWrite [] ?col = ([0, 0, 0, 1, 0], None)"
    by (simp add: writeSnapshotToSink_def writeChunk_def binary_Write_def bufferWrite_def
          BigEndian_PutUint32_def)
  have five: "BigEndian_PutUint32 5 = [0, 0, 0, 5]"
    by (simp add: BigEndian_PutUint32_def)
  have bad: "(0 < length [0, 0, 0, 5, 1, 2 :: byte] \<and> length [0, 0, 0, 5, 1, 2 :: byte] < 4)
              \<or> ([0, 0, 0, 5, 1, 2] = BigEndian_PutUint32 5 @ [1, 2] \<and> length [1, 2 :: byte] < unat (5 :: 32 word))
              \<or> ([0, 0, 0, 5, 1, 2] = BigEndian_PutUint32 5 @ [] @ [1, 2] \<and> length ([] :: byte list) = unat (5 :: 32 word)
                  \<and> ?U [] = Inl (ErrorString ''invalid''))"
    by (simp add: five)
  have "\<exists>err. readSnapshotChunks ?U ([0, 0, 0, 1, 0] @ [0, 0, 0, 5, 1, 2]) = Inl err \<and>
          Restore ?U (\<lambda>calls c. None) [] ([0, 0, 0, 1, 0] @ [0, 0, 0, 5, 1, 2]) = (Some err, [])"
    using w bad
    by (intro restore_malformed_stream [where Marshal = ?M and Unmarshal = ?U and collector = ?col
          and n = 5 and rest = "[1, 2]" and d = "[]" and e = "ErrorString ''invalid''"])
       simp_all
  then show ?thesis .
qed

text \<open>
  The claim as first stated, for every malformed stream, fails where the malformation
  follows a final chunk: the reader stops at the final chunk and never sees it. The first
  frame's payload is the sixteen bytes of \<^verbatim>\<open>{"IsFinal":true}\<close>; it is followed by a length
  prefix 5 with two bytes of payload. \<open>Restore\<close> returns no error and the backend's
  \<open>ImportSnapshot\<close> is invoked with the one chunk.
\<close>

theorem restore_after_final_counterexample:
  \<open>Restore
     (\<lambda>d. if d = bytes_of ''{"IsFinal":true}''
           then Inr \<lparr>sc_Metadata = None, sc_FileChunk = None, sc_Sequence = 0, sc_IsFinal = True\<rparr>
           else Inl (ErrorString ''unexpected end of JSON input''))
     (\<lambda>calls c. None) []
     ([0, 0, 0, 16] @ bytes_of ''{"IsFinal":true}'' @ [0, 0, 0, 5, 1, 2])
   = (None, [CallImportSnapshot
               [\<lparr>sc_Metadata = None, sc_FileChunk = None, sc_Sequence = 0, sc_IsFinal = True\<rparr>]])\<close>
proof -
  have put: "BigEndian_PutUint32 16 = [0, 0, 0, 16]"
    by (simp add: BigEndian_PutUint32_def)
  have len: \<open>length (bytes_of ''{"IsFinal":true}'') = unat (16 :: 32 word)\<close>
    by (simp add: length_bytes_of)
  have \<open>readChunk (\<lambda>d. if d = bytes_of ''{"IsFinal":true}''
           then Inr \<lparr>sc_Metadata = None, sc_FileChunk = None, sc_Sequence = 0, sc_IsFinal = True\<rparr>
           else Inl (ErrorString ''unexpected end of JSON input''))
         (BigEndian_PutUint32 16 @ bytes_of ''{"IsFinal":true}'' @ [0, 0, 0, 5, 1, 2])
       = (Inr \<lparr>sc_Metadata = None, sc_FileChunk = None, sc_Sequence = 0, sc_IsFinal = True\<rparr>,
          [0, 0, 0, 5, 1, 2])\<close>
    using len by (simp add: readChunk_def binary_Read_prefix io_ReadFull_def)
  then show ?thesis
    unfolding Restore_def readSnapshotChunks_def put
    by (subst readLoop.simps) (simp add: Client_ImportSnapshot_def rpc_def)
qed

section \<open>Properties: the client's redirect loop\<close>










section \<open>What the write path does with Delete, DropCollection and backend errors\<close>

lemma OnInsert_proposes:
  assumes "ireq_CollectionName req \<noteq> []" and "ireq_Vector req \<noteq> []"
    and "MarshalPoint \<lparr>ip_CollectionName = ireq_CollectionName req, ip_Id = ireq_Id req,
                       ip_Vector = ireq_Vector req,
                       ip_PayloadInsertQuery = ireq_PayloadInsertQuery req\<rparr> = Inr payload"
    and "MarshalCommand \<lparr>cmd_Type = CmdInsert, cmd_Payload = payload\<rparr> = Inr comm"
  shows "snd (OnInsert MarshalPoint MarshalCommand rf ps req) = ps @ [(comm, 5)]"
  using assms
  by (simp add: OnInsert_def InsertPointBuilder_Build_def raft_Apply_def split: option.split)

text \<open>
  Claim C1, evaluated on the code. With the node's \<open>OnDelete\<close> callback, the Delete
  handler answers every request with success and the message \<open>deleted successfully\<close>,
  and the list of commands proposed to the consensus node is what it was: nothing is
  serialised and \<^verbatim>\<open>Apply\<close> is not called. (\<open>OnInsert\<close>, beside it, proposes a command with
  a deadline of 5 seconds: \<open>OnInsert_proposes\<close>.)
\<close>

theorem delete_handler_proposes_nothing:
  "ClusterServer_Delete (Some OnDelete) ps req =
     ((\<lparr>dresp_Success = True, dresp_Message = ''deleted successfully''\<rparr>, None), ps)"
  by (simp add: ClusterServer_Delete_def OnDelete_def)

text \<open>
  Claim C2, evaluated on the code. A committed entry that decodes to a command of type
  Delete, or of type DropCollection, takes the default branch of \<open>Apply\<close>: the result
  carries no error and no call is sent to the backend.
\<close>

theorem apply_skips_delete_and_drop:
  "Apply (\<lambda>d. Inr \<lparr>cmd_Type = CmdDelete, cmd_Payload = payload\<rparr>)
         UnmarshalConfig UnmarshalPoint be calls rlog_Data
     = (Returns \<lparr>ar_Data = None, ar_Error = None\<rparr>, calls)
   \<and> Apply (\<lambda>d. Inr \<lparr>cmd_Type = CmdDropCollection, cmd_Payload = payload\<rparr>)
         UnmarshalConfig UnmarshalPoint be calls rlog_Data
     = (Returns \<lparr>ar_Data = None, ar_Error = None\<rparr>, calls)"
  by (simp add: Apply_def CmdDelete_def CmdDropCollection_def CmdCreateCollection_def
        CmdInsert_def)

text \<open>
  Claim C3, evaluated on the code. On a backend that answers every call with the error
  \<open>err\<close>, a committed Insert and a committed CreateCollection are sent to the backend and
  the result of \<open>Apply\<close> carries no error: the backend's error is dropped.
\<close>

theorem apply_drops_backend_error:
  "Apply (\<lambda>d. Inr \<lparr>cmd_Type = CmdInsert, cmd_Payload = payload\<rparr>)
         UnmarshalConfig (\<lambda>d. Inr pt) (\<lambda>calls c. Some err) calls rlog_Data
     = (Returns \<lparr>ar_Data = None, ar_Error = None\<rparr>, calls @ [CallInsert pt])
   \<and> Apply (\<lambda>d. Inr \<lparr>cmd_Type = CmdCreateCollection, cmd_Payload = payload\<rparr>)
         (\<lambda>d. Inr cfg) UnmarshalPoint (\<lambda>calls c. Some err) calls rlog_Data
     = (Returns \<lparr>ar_Data = None, ar_Error = None\<rparr>, calls @ [CallCreateCollection cfg])"
  by (simp add: Apply_def CmdCreateCollection_def CmdInsert_def applyInsert_def
        applyCreateCollection_def Client_Insert_def Client_CreateCollection_def rpc_def)

end
